theory Spec2Isabelle
  imports Main
begin

text \<open>
  The notebook chains library services: a JSON loader, a text splitter, an embedding index,
  a multi-query retriever and a language model. Its own code is the metadata function of
  the loader, the prompt templates, the context assembler and the composition of the chain;
  these are embedded below. The services enter as arguments wherever the notebook's code
  calls them.
\<close>

section \<open>Ingestion: the metadata function of the JSON loader\<close>

text \<open>
  The notebook hands \<^verbatim>\<open>metadata_func\<close> to the JSON loader:
  \<^verbatim>\<open>
  def metadata_func(record: dict, metadata: dict) -> dict:
      for k, v in record.items():
          if k != 'content':
              metadata[k] = v
      return metadata
  \<close>
  A Python \<^verbatim>\<open>dict\<close> iterates over its items in insertion order and holds every key once.
  The record is therefore the list of its items (keys pairwise distinct), the loop is a
  recursion over that list, and the metadata dictionary, which the loop updates in place and
  then returns, is a map passed through the recursion. Values are whatever the JSON file
  holds, so the value type stays a parameter.
\<close>

fun metadata_func :: "(string \<times> 'v) list \<Rightarrow> (string \<rightharpoonup> 'v) \<Rightarrow> (string \<rightharpoonup> 'v)" where
  "metadata_func [] metadata = metadata"
| "metadata_func ((k, v) # items) metadata =
     (if k \<noteq> ''content'' then metadata_func items (metadata(k \<mapsto> v))
      else metadata_func items metadata)"

section \<open>Question answering: passages, prompt templates and the context assembler\<close>

text \<open>
  A passage as the retriever hands it on: its text and its metadata dictionary (the fields
  \<^verbatim>\<open>doc.page_content\<close> and \<^verbatim>\<open>doc.metadata\<close>). Metadata values are kept as the text that
  filling a template writes for them.
\<close>

record document =
  page_content :: string
  metadata :: "string \<rightharpoonup> string"

datatype error =
    ValueError "string list"  \<comment> \<open>a passage lacks the metadata that the template names\<close>
  | KeyError string           \<comment> \<open>a template slot without a value\<close>
  | IndexUnavailable          \<comment> \<open>the search service failed\<close>
  | GenerationFailure         \<comment> \<open>the language-model call failed\<close>

text \<open>
  A prompt template is the text of the notebook's literal, cut at its \<^verbatim>\<open>{slot}\<close> places.
  \<^verbatim>\<open>
  LLM_DOCUMENT_PROMPT = PromptTemplate.from_template(
      """
      ---
      SOURCE: {name}
      {page_content}
      ---
      """
  )
  \<close>
  The literal starts with a line break right after the opening quotes, and every line of it
  is indented by four blanks, the last one (before the closing quotes) included.
\<close>

datatype piece = Text string | Slot string

type_synonym prompt_template = "piece list"

definition LLM_DOCUMENT_PROMPT :: prompt_template where
  "LLM_DOCUMENT_PROMPT =
     [Text ''\<newline>    ---\<newline>    SOURCE: '', Slot ''name'',
      Text ''\<newline>    '', Slot ''page_content'',
      Text ''\<newline>    ---\<newline>    '']"

text \<open>
  The question-answering prompt of the first chain, with the slots \<^verbatim>\<open>{context}\<close> and
  \<^verbatim>\<open>{question}\<close>; the two later chains of the notebook change the instruction text only.
\<close>

definition LLM_CONTEXT_PROMPT :: prompt_template where
  "LLM_CONTEXT_PROMPT =
     [Text ''You are an assistant for question-answering tasks. Use the following pieces of retrieved\<newline>    context to answer the question. If you don't know the answer, just say that you don't know. \<newline>    Be as verbose and educational in your response as possible. \<newline>    \<newline>    context: '',
      Slot ''context'',
      Text ''\<newline>    Question: \"'', Slot ''question'',
      Text ''\"\<newline>    Answer:\<newline>    '']"

text \<open>
  Modelled from the spec: \<^verbatim>\<open>format_document\<close> and the template classes are imported from
  the prompting library, so their code is missing from the repository; the spec has each
  passage "wrapped by the template" (source label and body). Filling writes the template's
  text with every slot replaced by its value, from left to right, and stops at a slot
  without a value. \<^verbatim>\<open>format_document\<close> offers the passage's text under \<^verbatim>\<open>page_content\<close>
  together with the passage's metadata (a metadata entry of the same name comes later and
  wins), and refuses a passage that has no value for one of the template's slots.
\<close>

fun format_template :: "prompt_template \<Rightarrow> (string \<rightharpoonup> string) \<Rightarrow> error + string" where
  "format_template [] info = Inr []"
| "format_template (Text s # ps) info =
     (case format_template ps info of Inl e \<Rightarrow> Inl e | Inr r \<Rightarrow> Inr (s @ r))"
| "format_template (Slot k # ps) info =
     (case info k of
        None \<Rightarrow> Inl (KeyError k)
      | Some v \<Rightarrow> (case format_template ps info of Inl e \<Rightarrow> Inl e | Inr r \<Rightarrow> Inr (v @ r)))"

fun input_variables :: "prompt_template \<Rightarrow> string list" where
  "input_variables [] = []"
| "input_variables (Text s # ps) = input_variables ps"
| "input_variables (Slot k # ps) = k # input_variables ps"

definition format_document :: "document \<Rightarrow> prompt_template \<Rightarrow> error + string" where
  "format_document doc prompt =
     (let base_info = [''page_content'' \<mapsto> page_content doc] ++ metadata doc;
          missing_metadata = filter (\<lambda>k. base_info k = None) (input_variables prompt)
      in if missing_metadata \<noteq> [] then Inl (ValueError missing_metadata)
         else format_template prompt base_info)"

text \<open>
  Python's \<^verbatim>\<open>separator.join(strings)\<close>: the strings in their order, the separator between
  each two neighbours, nothing before the first or after the last.
\<close>

fun join :: "string \<Rightarrow> string list \<Rightarrow> string" where
  "join sep [] = []"
| "join sep [s] = s"
| "join sep (s # t # ss) = s @ sep @ join sep (t # ss)"

text \<open>
  \<^verbatim>\<open>
  def _combine_documents(docs, document_prompt=LLM_DOCUMENT_PROMPT, document_separator="\n\n"):
      doc_strings = [format_document(doc, document_prompt) for doc in docs]
      return document_separator.join(doc_strings)
  \<close>
  The comprehension formats the passages from first to last and ends at the first call
  that raises; \<open>doc_strings\<close> is that comprehension. The library's \<^verbatim>\<open>format_document\<close> is
  the argument \<open>fmt\<close>, so that what is proved of the assembler holds for whatever the
  library call returns or raises.
\<close>

fun doc_strings :: "('d \<Rightarrow> 'p \<Rightarrow> 'e + string) \<Rightarrow> 'p \<Rightarrow> 'd list \<Rightarrow> 'e + string list" where
  "doc_strings fmt document_prompt [] = Inr []"
| "doc_strings fmt document_prompt (doc # docs) =
     (case fmt doc document_prompt of
        Inl e \<Rightarrow> Inl e
      | Inr s \<Rightarrow> (case doc_strings fmt document_prompt docs of
                   Inl e \<Rightarrow> Inl e
                 | Inr ss \<Rightarrow> Inr (s # ss)))"

definition combine_documents ::
  "('d \<Rightarrow> 'p \<Rightarrow> 'e + string) \<Rightarrow> 'd list \<Rightarrow> 'p \<Rightarrow> string \<Rightarrow> 'e + string" where
  "combine_documents fmt docs document_prompt document_separator =
     (case doc_strings fmt document_prompt docs of
        Inl e \<Rightarrow> Inl e
      | Inr ss \<Rightarrow> Inr (join document_separator ss))"

text \<open>
  \<^verbatim>\<open>
  _context = RunnableParallel(
      context=retriever | _combine_documents,
      question=RunnablePassthrough(),
  )
  chain = _context | LLM_CONTEXT_PROMPT | llm
  \<close>
  The retriever and the language model are services outside the notebook: both are
  arguments, and either may fail. \<^verbatim>\<open>_combine_documents\<close> is called with the passages alone,
  so with its default template and its default separator of two line breaks. The first
  stage yields the dictionary of the two prompt inputs, the second fills the prompt, the
  third calls the model on the filled prompt (how the library frames the prompt as a
  message belongs to the model call). A failure of the search is \<open>IndexUnavailable\<close>, one
  of the model \<open>GenerationFailure\<close>, the two request errors that the design names.
\<close>

definition context_runnable ::
  "(string \<Rightarrow> error + document list) \<Rightarrow> string \<Rightarrow> error + (string \<rightharpoonup> string)" where
  "context_runnable retriever question =
     (case retriever question of
        Inl e \<Rightarrow> Inl e
      | Inr docs \<Rightarrow>
          (case combine_documents format_document docs LLM_DOCUMENT_PROMPT ''\<newline>\<newline>'' of
             Inl e \<Rightarrow> Inl e
           | Inr context \<Rightarrow> Inr [''context'' \<mapsto> context, ''question'' \<mapsto> question]))"

definition chain ::
  "prompt_template \<Rightarrow> (string \<Rightarrow> error + document list) \<Rightarrow> (string \<Rightarrow> error + string)
     \<Rightarrow> string \<Rightarrow> error + string" where
  "chain context_prompt retriever llm question =
     (case context_runnable retriever question of
        Inl e \<Rightarrow> Inl e
      | Inr inputs \<Rightarrow>
          (case format_template context_prompt inputs of
             Inl e \<Rightarrow> Inl e
           | Inr prompt \<Rightarrow> llm prompt))"

section \<open>Properties of the metadata function\<close>

lemma metadata_func_other_key:
  "k \<notin> fst ` set record \<Longrightarrow> metadata_func record md k = md k"
proof (induction "record" arbitrary: md)
  case Nil
  show ?case by simp
next
  case (Cons item items)
  obtain k' v' where item: "item = (k', v')" by (cases item)
  from Cons.prems item have "k \<noteq> k'" and "k \<notin> fst ` set items" by auto
  with Cons.IH item show ?case by simp
qed

lemma metadata_func_content_key:
  "metadata_func record md ''content'' = md ''content''"
proof (induction "record" arbitrary: md)
  case Nil
  show ?case by simp
next
  case (Cons item items)
  obtain k' v' where item: "item = (k', v')" by (cases item)
  show ?case unfolding item by (simp add: Cons.IH)
qed

lemma metadata_func_copies:
  "distinct (map fst record) \<Longrightarrow> (k, v) \<in> set record \<Longrightarrow> k \<noteq> ''content'' \<Longrightarrow>
   metadata_func record md k = Some v"
proof (induction "record" arbitrary: md)
  case Nil
  then show ?case by simp
next
  case (Cons item items)
  obtain k' v' where item: "item = (k', v')" by (cases item)
  show ?case
  proof (cases "(k, v) = item")
    case True
    with item have same: "k' = k" "v' = v" by simp_all
    from Cons.prems(1) item same have "k \<notin> fst ` set items" by simp
    then have "metadata_func items (md(k \<mapsto> v)) k = (md(k \<mapsto> v)) k"
      by (rule metadata_func_other_key)
    with Cons.prems(3) item same show ?thesis by simp
  next
    case False
    with Cons.prems(2) have "(k, v) \<in> set items" by simp
    moreover from Cons.prems(1) have "distinct (map fst items)" by simp
    ultimately have "\<And>m. metadata_func items m k = Some v"
      using Cons.IH Cons.prems(3) by blast
    then show ?thesis unfolding item by simp
  qed
qed

text \<open>
  Claim C9. For every record (a dictionary, so its keys are pairwise distinct) and every
  initial metadata dictionary, the dictionary that \<^verbatim>\<open>metadata_func\<close> returns holds every
  item of the record whose key is not \<^verbatim>\<open>content\<close>; its entry under \<^verbatim>\<open>content\<close> is the one
  the initial metadata had (none, when it had none), so nothing comes from the record's
  \<^verbatim>\<open>content\<close> item; and every key that does not occur in the record maps to what it
  mapped to before.
\<close>

theorem metadata_func_spec:
  assumes "distinct (map fst record)"
  shows "(\<forall>(k, v) \<in> set record. k \<noteq> ''content'' \<longrightarrow> metadata_func record md k = Some v)
       \<and> metadata_func record md ''content'' = md ''content''
       \<and> (\<forall>k. k \<notin> fst ` set record \<longrightarrow> metadata_func record md k = md k)"
  using assms
  by (auto simp: metadata_func_copies metadata_func_content_key metadata_func_other_key)

theorem metadata_func_spec_witness:
  "distinct (map fst [(''name'', ''Work From Home Policy''), (''content'', ''Effective: March 2020''),
                      (''category'', ''teams'')])
   \<and> metadata_func [(''name'', ''Work From Home Policy''), (''content'', ''Effective: March 2020''),
                     (''category'', ''teams'')]
        [''source'' \<mapsto> ''temp.json'', ''name'' \<mapsto> ''old''] ''name'' = Some ''Work From Home Policy''
   \<and> metadata_func [(''name'', ''Work From Home Policy''), (''content'', ''Effective: March 2020''),
                     (''category'', ''teams'')]
        [''source'' \<mapsto> ''temp.json'', ''name'' \<mapsto> ''old''] ''category'' = Some ''teams''
   \<and> metadata_func [(''name'', ''Work From Home Policy''), (''content'', ''Effective: March 2020''),
                     (''category'', ''teams'')]
        [''source'' \<mapsto> ''temp.json'', ''name'' \<mapsto> ''old''] ''content'' = None
   \<and> metadata_func [(''name'', ''Work From Home Policy''), (''content'', ''Effective: March 2020''),
                     (''category'', ''teams'')]
        [''source'' \<mapsto> ''temp.json'', ''name'' \<mapsto> ''old''] ''source'' = Some ''temp.json''"
proof -
  let ?items = "[(''name'', ''Work From Home Policy''), (''content'', ''Effective: March 2020''),
                  (''category'', ''teams'')]"
  let ?md = "[''source'' \<mapsto> ''temp.json'', ''name'' \<mapsto> ''old'']"
  have d: "distinct (map fst ?items)" by simp
  from metadata_func_spec [OF d, of ?md]
  show ?thesis by simp
qed

section \<open>Properties of the context assembler\<close>

lemma doc_strings_all_formatted:
  "\<forall>doc \<in> set docs. fmt doc prompt = Inr (wrap doc) \<Longrightarrow>
   doc_strings fmt prompt docs = Inr (map wrap docs)"
  by (induction docs) simp_all

lemma doc_strings_raises:
  "doc \<in> set docs \<Longrightarrow> fmt doc prompt = Inl e \<Longrightarrow> \<exists>e'. doc_strings fmt prompt docs = Inl e'"
proof (induction docs)
  case Nil
  then show ?case by simp
next
  case (Cons d ds)
  show ?case
  proof (cases "fmt d prompt")
    case (Inl e0)
    then show ?thesis by simp
  next
    case (Inr s)
    with Cons.prems have "doc \<in> set ds" by auto
    with Cons.IH Cons.prems(2) obtain e' where "doc_strings fmt prompt ds = Inl e'" by blast
    with Inr show ?thesis by simp
  qed
qed

text \<open>A call of the formatter that raises makes the assembler raise: no passage is skipped.\<close>

lemma combine_documents_raises:
  "doc \<in> set docs \<Longrightarrow> fmt doc prompt = Inl e \<Longrightarrow>
   \<exists>e'. combine_documents fmt docs prompt sep = Inl e'"
  using doc_strings_raises [of doc docs fmt prompt e]
  by (auto simp: combine_documents_def)

lemma join_first_then_rest:
  "ss \<noteq> [] \<Longrightarrow> join sep ss = hd ss @ concat (map (\<lambda>s. sep @ s) (tl ss))"
  by (induction sep ss rule: join.induct) simp_all

lemma combine_documents_formatted:
  assumes "docs \<noteq> []"
      and "\<forall>doc \<in> set docs. fmt doc prompt = Inr (wrap doc)"
  shows "combine_documents fmt docs prompt sep =
           Inr (wrap (hd docs) @ concat (map (\<lambda>doc. sep @ wrap doc) (tl docs)))"
proof -
  from assms(2) have "doc_strings fmt prompt docs = Inr (map wrap docs)"
    by (rule doc_strings_all_formatted)
  moreover from assms(1) have "map wrap docs \<noteq> []" by simp
  then have "join sep (map wrap docs) =
      hd (map wrap docs) @ concat (map (\<lambda>s. sep @ s) (tl (map wrap docs)))"
    by (rule join_first_then_rest)
  ultimately show ?thesis using assms(1)
    by (simp add: combine_documents_def hd_map map_tl comp_def)
qed

text \<open>
  The default template writes the passage's \<^verbatim>\<open>name\<close> after the label \<^verbatim>\<open>SOURCE:\<close> and the
  passage's text on the next line, between two rules.
\<close>

lemma format_document_source_label:
  assumes "metadata doc ''name'' = Some name" and "metadata doc ''page_content'' = None"
  shows "format_document doc LLM_DOCUMENT_PROMPT =
           Inr (''\<newline>    ---\<newline>    SOURCE: '' @ name @ ''\<newline>    '' @ page_content doc
                @ ''\<newline>    ---\<newline>    '')"
  using assms by (simp add: format_document_def LLM_DOCUMENT_PROMPT_def map_add_def)

text \<open>
  Claim C7, as amended. For every non-empty sequence of retrieved passages for each of
  which the formatting call returns, the context assembler returns one string: the wrapped
  passages in the order in which they were received, the separator between each two
  neighbours, and nothing else (nothing cut, nothing moved). The wrapped passage is what
  \<^verbatim>\<open>format_document\<close> returns for the passage and the template, so the first part holds
  for any formatter and any template. The second part is the notebook's own template: when
  every passage has a \<^verbatim>\<open>name\<close> in its metadata (and no metadata entry \<^verbatim>\<open>page_content\<close>
  that would replace its text), each passage is written with its \<^verbatim>\<open>SOURCE:\<close> label
  before its text. The condition is needed: see the passage without a name after the
  witness.
\<close>

theorem combine_documents_concatenates:
  assumes "docs \<noteq> []"
  shows "((\<forall>doc \<in> set docs. fmt doc prompt = Inr (wrap doc)) \<longrightarrow>
            combine_documents fmt docs prompt sep =
              Inr (wrap (hd docs) @ concat (map (\<lambda>doc. sep @ wrap doc) (tl docs))))
       \<and> ((\<forall>doc \<in> set docs. metadata doc ''name'' = Some (name doc)
                              \<and> metadata doc ''page_content'' = None) \<longrightarrow>
            combine_documents format_document docs LLM_DOCUMENT_PROMPT sep =
              Inr ((''\<newline>    ---\<newline>    SOURCE: '' @ name (hd docs) @ ''\<newline>    ''
                      @ page_content (hd docs) @ ''\<newline>    ---\<newline>    '')
                   @ concat (map (\<lambda>doc. sep @ (''\<newline>    ---\<newline>    SOURCE: '' @ name doc
                                      @ ''\<newline>    '' @ page_content doc
                                      @ ''\<newline>    ---\<newline>    ''))
                               (tl docs))))"
proof (intro conjI impI)
  assume "\<forall>doc \<in> set docs. fmt doc prompt = Inr (wrap doc)"
  with assms show "combine_documents fmt docs prompt sep =
      Inr (wrap (hd docs) @ concat (map (\<lambda>doc. sep @ wrap doc) (tl docs)))"
    by (rule combine_documents_formatted)
next
  let ?wrap = "\<lambda>doc. ''\<newline>    ---\<newline>    SOURCE: '' @ name doc @ ''\<newline>    ''
                       @ page_content doc @ ''\<newline>    ---\<newline>    ''"
  assume "\<forall>doc \<in> set docs. metadata doc ''name'' = Some (name doc)
                            \<and> metadata doc ''page_content'' = None"
  then have "\<forall>doc \<in> set docs. format_document doc LLM_DOCUMENT_PROMPT = Inr (?wrap doc)"
    using format_document_source_label by blast
  with assms have "combine_documents format_document docs LLM_DOCUMENT_PROMPT sep =
      Inr (?wrap (hd docs) @ concat (map (\<lambda>doc. sep @ ?wrap doc) (tl docs)))"
    by (rule combine_documents_formatted)
  then show "combine_documents format_document docs LLM_DOCUMENT_PROMPT sep =
      Inr ((''\<newline>    ---\<newline>    SOURCE: '' @ name (hd docs) @ ''\<newline>    ''
              @ page_content (hd docs) @ ''\<newline>    ---\<newline>    '')
           @ concat (map (\<lambda>doc. sep @ (''\<newline>    ---\<newline>    SOURCE: '' @ name doc
                              @ ''\<newline>    '' @ page_content doc
                              @ ''\<newline>    ---\<newline>    ''))
                       (tl docs)))"
    by simp
qed

theorem combine_documents_concatenates_witness:
  "[\<lparr>page_content = ''Our sales team'', metadata = [''name'' \<mapsto> ''Sales Organization'']\<rparr>,
    \<lparr>page_content = ''Effective: March 2020'', metadata = [''name'' \<mapsto> ''Work From Home Policy'']\<rparr>]
     \<noteq> []
   \<and> combine_documents format_document
        [\<lparr>page_content = ''Our sales team'', metadata = [''name'' \<mapsto> ''Sales Organization'']\<rparr>,
         \<lparr>page_content = ''Effective: March 2020'',
          metadata = [''name'' \<mapsto> ''Work From Home Policy'']\<rparr>]
        LLM_DOCUMENT_PROMPT ''\<newline>\<newline>''
     = Inr ''\<newline>    ---\<newline>    SOURCE: Sales Organization\<newline>    Our sales team\<newline>    ---\<newline>    \<newline>\<newline>\<newline>    ---\<newline>    SOURCE: Work From Home Policy\<newline>    Effective: March 2020\<newline>    ---\<newline>    ''"
proof -
  let ?d1 = "\<lparr>page_content = ''Our sales team'',
              metadata = [''name'' \<mapsto> ''Sales Organization'']\<rparr>"
  let ?d2 = "\<lparr>page_content = ''Effective: March 2020'',
              metadata = [''name'' \<mapsto> ''Work From Home Policy'']\<rparr>"
  let ?name = "\<lambda>doc. the (metadata doc ''name'')"
  let ?wrap = "\<lambda>doc. ''\<newline>    ---\<newline>    SOURCE: '' @ ?name doc @ ''\<newline>    ''
                       @ page_content doc @ ''\<newline>    ---\<newline>    ''"
  have nonempty: "[?d1, ?d2] \<noteq> []" by simp
  have formatted: "\<forall>doc \<in> set [?d1, ?d2]. format_document doc LLM_DOCUMENT_PROMPT = Inr (?wrap doc)"
    by (simp add: format_document_def LLM_DOCUMENT_PROMPT_def map_add_def)
  have named: "\<forall>doc \<in> set [?d1, ?d2]. metadata doc ''name'' = Some (?name doc)
                                       \<and> metadata doc ''page_content'' = None"
    by simp
  from combine_documents_concatenates
         [OF nonempty, of format_document LLM_DOCUMENT_PROMPT ?wrap "''\<newline>\<newline>''" ?name]
       formatted named
  show ?thesis by simp
qed

text \<open>
  Claim C7, as first stated, has no condition on the passages: every non-empty sequence
  would give one string of wrapped passages. A passage without a \<^verbatim>\<open>name\<close> refutes it. The
  loader puts \<^verbatim>\<open>source\<close> into the metadata of every record, and the metadata function
  adds a \<^verbatim>\<open>name\<close> only when the record has one; for such a passage the template's slot
  \<^verbatim>\<open>{name}\<close> has no value, the formatting call raises, and the assembler returns no
  string at all.
\<close>

theorem combine_documents_without_name_raises:
  "combine_documents format_document
     [\<lparr>page_content = ''Our sales team'', metadata = [''source'' \<mapsto> ''temp.json'']\<rparr>]
     LLM_DOCUMENT_PROMPT ''\<newline>\<newline>''
   = Inl (ValueError [''name''])"
  by (simp add: combine_documents_def format_document_def LLM_DOCUMENT_PROMPT_def map_add_def)

text \<open>
  Claim C10. For an empty sequence of passages the context assembler returns the empty
  string, whatever the formatter, the template and the separator are. When the retriever
  returns no passage, the chain therefore calls the language model on the prompt whose
  context slot holds the empty text: the request goes on. For a single passage the
  assembler puts no separator in: its result is what the formatter gives for that passage,
  the same for every separator.
\<close>

theorem combine_documents_empty_and_single:
  "combine_documents fmt [] prompt sep = Inr ''''
   \<and> (retriever question = Inr [] \<longrightarrow>
        chain LLM_CONTEXT_PROMPT retriever llm question =
          llm (''You are an assistant for question-answering tasks. Use the following pieces of retrieved\<newline>    context to answer the question. If you don't know the answer, just say that you don't know. \<newline>    Be as verbose and educational in your response as possible. \<newline>    \<newline>    context: ''
               @ '''' @ ''\<newline>    Question: \"'' @ question @ ''\"\<newline>    Answer:\<newline>    ''))
   \<and> combine_documents fmt [doc] prompt sep = fmt doc prompt"
proof (intro conjI impI)
  show "combine_documents fmt [] prompt sep = Inr ''''"
    by (simp add: combine_documents_def)
next
  assume "retriever question = Inr []"
  then show "chain LLM_CONTEXT_PROMPT retriever llm question =
      llm (''You are an assistant for question-answering tasks. Use the following pieces of retrieved\<newline>    context to answer the question. If you don't know the answer, just say that you don't know. \<newline>    Be as verbose and educational in your response as possible. \<newline>    \<newline>    context: ''
           @ '''' @ ''\<newline>    Question: \"'' @ question @ ''\"\<newline>    Answer:\<newline>    '')"
    by (simp add: chain_def context_runnable_def combine_documents_def LLM_CONTEXT_PROMPT_def)
next
  show "combine_documents fmt [doc] prompt sep = fmt doc prompt"
    by (cases "fmt doc prompt") (simp_all add: combine_documents_def)
qed

theorem combine_documents_empty_and_single_witness:
  "(\<lambda>q. Inr []) ''what is the nasa sales team?'' = (Inr [] :: error + document list)
   \<and> chain LLM_CONTEXT_PROMPT (\<lambda>q. Inr []) Inr ''what is the nasa sales team?'' =
       Inr ''You are an assistant for question-answering tasks. Use the following pieces of retrieved\<newline>    context to answer the question. If you don't know the answer, just say that you don't know. \<newline>    Be as verbose and educational in your response as possible. \<newline>    \<newline>    context: \<newline>    Question: \"what is the nasa sales team?\"\<newline>    Answer:\<newline>    ''
   \<and> combine_documents format_document ([] :: document list) LLM_DOCUMENT_PROMPT ''\<newline>\<newline>''
       = Inr ''''
   \<and> combine_documents format_document
        [\<lparr>page_content = ''Our sales team'', metadata = [''name'' \<mapsto> ''Sales Organization'']\<rparr>]
        LLM_DOCUMENT_PROMPT ''\<newline>\<newline>''
       = Inr ''\<newline>    ---\<newline>    SOURCE: Sales Organization\<newline>    Our sales team\<newline>    ---\<newline>    ''"
proof -
  let ?doc = "\<lparr>page_content = ''Our sales team'',
               metadata = [''name'' \<mapsto> ''Sales Organization'']\<rparr>"
  have formatted: "format_document ?doc LLM_DOCUMENT_PROMPT =
      Inr ''\<newline>    ---\<newline>    SOURCE: Sales Organization\<newline>    Our sales team\<newline>    ---\<newline>    ''"
    by (simp add: format_document_def LLM_DOCUMENT_PROMPT_def map_add_def)
  from combine_documents_empty_and_single
         [of format_document LLM_DOCUMENT_PROMPT "''\<newline>\<newline>''" "\<lambda>q. Inr []"
             "''what is the nasa sales team?''" Inr ?doc]
       formatted
  show ?thesis by simp
qed

end
